theory Spec2Isabelle
  imports Complex_Main "HOL-Library.Word"
begin

section \<open>Composed stationary process model\<close>

text \<open>
  Source: \<^verbatim>\<open>state_filtering/process_model/composed_stationary_process_model.hpp\<close>.

  Machine model: \<^verbatim>\<open>int\<close> and \<^verbatim>\<open>unsigned\<close> are 32 bits wide, \<^verbatim>\<open>size_t\<close> and Eigen's
  \<^verbatim>\<open>Index\<close> (\<^verbatim>\<open>std::ptrdiff_t\<close>) are 64 bits wide. A 32-bit word read with \<open>sint\<close> is the value
  of an \<^verbatim>\<open>int\<close>; the conversions between \<^verbatim>\<open>int\<close> and \<^verbatim>\<open>unsigned\<close> keep the bits. Scalars
  (\<^verbatim>\<open>ScalarType\<close>, \<^verbatim>\<open>double\<close>) are a type parameter, dynamic Eigen column vectors are lists.

  Eigen checks the bounds of block expressions and the sizes of assignments with
  \<^verbatim>\<open>eigen_assert\<close>; the model follows a build in which these assertions are enabled and
  represents a failed assertion (the program aborts) by an error value.
\<close>

datatype error = Eigen_assertion_failed

text \<open>
  A component \<^verbatim>\<open>StationaryProcessModel<>\<close> as the composed model sees it through the
  pointer it holds: the three sizes its virtual functions return (C++ \<^verbatim>\<open>int\<close>) and its
  \<^verbatim>\<open>mapFromGaussian\<close>. The base class itself is not part of the sources at hand.
\<close>

record 'a StationaryProcessModel =
  pm_variableSize :: "32 word"
  pm_randomsSize :: "32 word"
  pm_controlSize :: "32 word"
  pm_mapFromGaussian :: "'a list \<Rightarrow> 'a list"

record 'a ComposedStationaryProcessModel =
  process_models :: "'a StationaryProcessModel list"

text \<open>
  The counting loops: an \<^verbatim>\<open>unsigned\<close> accumulator, to which every component's \<^verbatim>\<open>int\<close>
  size is added (converted to \<^verbatim>\<open>unsigned\<close>, the addition wraps modulo \<open>2 ^ 32\<close>).
\<close>

definition total_count_state :: "'a StationaryProcessModel list \<Rightarrow> 32 word" where
  "total_count_state ms =
     foldl (\<lambda>total_count m. total_count + pm_variableSize m) 0 ms"

definition total_count_control :: "'a StationaryProcessModel list \<Rightarrow> 32 word" where
  "total_count_control ms =
     foldl (\<lambda>total_count m. total_count + pm_controlSize m) 0 ms"

definition total_count_randoms :: "'a StationaryProcessModel list \<Rightarrow> 32 word" where
  "total_count_randoms ms =
     foldl (\<lambda>total_count m. total_count + pm_randomsSize m) 0 ms"

text \<open>The size functions return the \<^verbatim>\<open>unsigned\<close> total as an \<^verbatim>\<open>int\<close> (read it with \<open>sint\<close>).\<close>

definition variableSize :: "'a ComposedStationaryProcessModel \<Rightarrow> 32 word" where
  "variableSize c = total_count_state (process_models c)"

definition randomsSize :: "'a ComposedStationaryProcessModel \<Rightarrow> 32 word" where
  "randomsSize c = total_count_randoms (process_models c)"

definition controlSize :: "'a ComposedStationaryProcessModel \<Rightarrow> 32 word" where
  "controlSize c = total_count_control (process_models c)"

text \<open>
  Eigen's \<^verbatim>\<open>v.middleRows(startRow, n)\<close> read as a value: the block of \<open>n\<close> rows from row
  \<open>startRow\<close>. The block's constructor asserts
  \<^verbatim>\<open>startRow >= 0 && blockRows >= 0 && startRow <= xpr.rows() - blockRows\<close>.
\<close>

definition middleRows :: "'a list \<Rightarrow> int \<Rightarrow> int \<Rightarrow> error + 'a list" where
  "middleRows v startRow n =
     (if 0 \<le> startRow \<and> 0 \<le> n \<and> startRow \<le> int (length v) - n
      then Inr (take (nat n) (drop (nat startRow) v))
      else Inl Eigen_assertion_failed)"

text \<open>
  \<^verbatim>\<open>v.middleRows(startRow, n) = src\<close>: the same block written. A block cannot be resized, so
  the assignment also asserts that \<open>src\<close> has \<open>n\<close> rows.
\<close>

definition assign_middleRows :: "'a list \<Rightarrow> int \<Rightarrow> int \<Rightarrow> 'a list \<Rightarrow> error + 'a list" where
  "assign_middleRows v startRow n src =
     (if 0 \<le> startRow \<and> 0 \<le> n \<and> startRow \<le> int (length v) - n \<and> int (length src) = n
      then Inr (take (nat startRow) v @ src @ drop (nat startRow + nat n) v)
      else Inl Eigen_assertion_failed)"

text \<open>
  The loop of \<^verbatim>\<open>mapFromGaussian\<close> over \<^verbatim>\<open>process_models_\<close> (the field \<open>process_models\<close>), from the component at the head
  of the list on. \<open>variables\<close> is the vector under construction: Eigen leaves the
  coefficients of a freshly sized vector uninitialised, which is the value \<open>None\<close> here.
  \<open>variable_index\<close> and \<open>random_index\<close> are the two \<^verbatim>\<open>size_t\<close> counters; a component's
  \<^verbatim>\<open>int\<close> size is sign-extended when it is added to them (\<open>scast\<close>) and when it is passed
  as an \<^verbatim>\<open>Index\<close>.
\<close>

fun mapFromGaussian_loop ::
  "'a StationaryProcessModel list \<Rightarrow> 'a list \<Rightarrow> 'a option list \<Rightarrow> 64 word \<Rightarrow> 64 word
     \<Rightarrow> error + 'a option list" where
  "mapFromGaussian_loop [] randoms variables variable_index random_index = Inr variables"
| "mapFromGaussian_loop (m # ms) randoms variables variable_index random_index =
     (case middleRows randoms (sint random_index) (sint (pm_randomsSize m)) of
        Inl e \<Rightarrow> Inl e
      | Inr randoms_block \<Rightarrow>
          (case assign_middleRows variables (sint variable_index) (sint (pm_variableSize m))
                  (map Some (pm_mapFromGaussian m randoms_block)) of
             Inl e \<Rightarrow> Inl e
           | Inr variables' \<Rightarrow>
               mapFromGaussian_loop ms randoms variables'
                 (variable_index + scast (pm_variableSize m))
                 (random_index + scast (pm_randomsSize m))))"

text \<open>
  \<^verbatim>\<open>mapFromGaussian\<close>: a vector of \<^verbatim>\<open>variableSize()\<close> rows is created (a negative size fails
  Eigen's assertion), the loop fills it, and it is returned.
\<close>

definition mapFromGaussian ::
  "'a ComposedStationaryProcessModel \<Rightarrow> 'a list \<Rightarrow> error + 'a option list" where
  "mapFromGaussian c randoms =
     (if sint (variableSize c) < 0 then Inl Eigen_assertion_failed
      else mapFromGaussian_loop (process_models c) randoms
             (replicate (nat (sint (variableSize c))) None) 0 0)"

text \<open>
  \<^verbatim>\<open>conditionals\<close> returns nothing; its effect is the sequence of \<^verbatim>\<open>conditionals\<close> calls it
  makes on its components, one per component and in list order. The model returns the
  arguments of these calls: the time step, the component's block of the state and its
  block of the control.
\<close>

fun conditionals_loop ::
  "'a StationaryProcessModel list \<Rightarrow> 't \<Rightarrow> 'a list \<Rightarrow> 'a list \<Rightarrow> 64 word \<Rightarrow> 64 word
     \<Rightarrow> error + ('t \<times> 'a list \<times> 'a list) list" where
  "conditionals_loop [] delta_time state control state_index control_index = Inr []"
| "conditionals_loop (m # ms) delta_time state control state_index control_index =
     (case middleRows state (sint state_index) (sint (pm_variableSize m)) of
        Inl e \<Rightarrow> Inl e
      | Inr state_block \<Rightarrow>
          (case middleRows control (sint control_index) (sint (pm_controlSize m)) of
             Inl e \<Rightarrow> Inl e
           | Inr control_block \<Rightarrow>
               (case conditionals_loop ms delta_time state control
                       (state_index + scast (pm_variableSize m))
                       (control_index + scast (pm_controlSize m)) of
                  Inl e \<Rightarrow> Inl e
                | Inr calls \<Rightarrow> Inr ((delta_time, state_block, control_block) # calls))))"

definition conditionals ::
  "'a ComposedStationaryProcessModel \<Rightarrow> 't \<Rightarrow> 'a list \<Rightarrow> 'a list
     \<Rightarrow> error + ('t \<times> 'a list \<times> 'a list) list" where
  "conditionals c delta_time state control =
     conditionals_loop (process_models c) delta_time state control 0 0"

subsection \<open>Vocabulary for the statements\<close>

text \<open>The sizes a component declares, as natural numbers (for a negative size, 0).\<close>

definition variable_dim :: "'a StationaryProcessModel \<Rightarrow> nat" where
  "variable_dim m = nat (sint (pm_variableSize m))"

definition randoms_dim :: "'a StationaryProcessModel \<Rightarrow> nat" where
  "randoms_dim m = nat (sint (pm_randomsSize m))"

definition control_dim :: "'a StationaryProcessModel \<Rightarrow> nat" where
  "control_dim m = nat (sint (pm_controlSize m))"

text \<open>The sums of the components' sizes, as integers.\<close>

definition sum_variableSize :: "'a StationaryProcessModel list \<Rightarrow> int" where
  "sum_variableSize ms = (\<Sum>m\<leftarrow>ms. sint (pm_variableSize m))"

definition sum_randomsSize :: "'a StationaryProcessModel list \<Rightarrow> int" where
  "sum_randomsSize ms = (\<Sum>m\<leftarrow>ms. sint (pm_randomsSize m))"

definition sum_controlSize :: "'a StationaryProcessModel list \<Rightarrow> int" where
  "sum_controlSize ms = (\<Sum>m\<leftarrow>ms. sint (pm_controlSize m))"

text \<open>
  \<open>blocks ns v\<close> cuts \<open>v\<close> into consecutive, disjoint blocks, the first of length \<open>ns ! 0\<close>
  from row 0, the next of length \<open>ns ! 1\<close> right behind it, and so on.
\<close>

fun blocks :: "nat list \<Rightarrow> 'a list \<Rightarrow> 'a list list" where
  "blocks [] v = []"
| "blocks (n # ns) v = take n v # blocks ns (drop n v)"

text \<open>
  Well-formed components: no declared size is negative, the three totals are below
  \<open>2 ^ 31\<close> (they fit an \<^verbatim>\<open>int\<close>), and a component given a block of \<^verbatim>\<open>randomsSize()\<close> rows
  returns a vector of \<^verbatim>\<open>variableSize()\<close> rows.
\<close>

definition sizes_nonnegative :: "'a StationaryProcessModel \<Rightarrow> bool" where
  "sizes_nonnegative m \<longleftrightarrow>
     0 \<le> sint (pm_variableSize m) \<and> 0 \<le> sint (pm_randomsSize m) \<and> 0 \<le> sint (pm_controlSize m)"

definition dimensions_fit :: "'a StationaryProcessModel list \<Rightarrow> bool" where
  "dimensions_fit ms \<longleftrightarrow>
     list_all sizes_nonnegative ms \<and>
     sum_variableSize ms < 2 ^ 31 \<and> sum_randomsSize ms < 2 ^ 31 \<and> sum_controlSize ms < 2 ^ 31"

definition returns_variableSize :: "'a StationaryProcessModel \<Rightarrow> bool" where
  "returns_variableSize m \<longleftrightarrow>
     (\<forall>r. length r = randoms_dim m \<longrightarrow> length (pm_mapFromGaussian m r) = variable_dim m)"

subsection \<open>Two concrete composed models\<close>

text \<open>
  A model of two components: the first doubles its two random numbers, the second adds its
  two random numbers up.
\<close>

definition doubling_model :: "real StationaryProcessModel" where
  "doubling_model =
     \<lparr>pm_variableSize = 2, pm_randomsSize = 2, pm_controlSize = 1,
      pm_mapFromGaussian = map (\<lambda>x. 2 * x)\<rparr>"

definition adding_model :: "real StationaryProcessModel" where
  "adding_model =
     \<lparr>pm_variableSize = 1, pm_randomsSize = 2, pm_controlSize = 0,
      pm_mapFromGaussian = (\<lambda>r. [sum_list r])\<rparr>"

definition small_composed :: "real ComposedStationaryProcessModel" where
  "small_composed = \<lparr>process_models = [doubling_model, adding_model]\<rparr>"

text \<open>
  A model of four components, each of which maps \<open>2 ^ 30\<close> random numbers to one variable:
  the total of the random sizes is \<open>2 ^ 32\<close>.
\<close>

definition wide_model :: "real StationaryProcessModel" where
  "wide_model =
     \<lparr>pm_variableSize = 1, pm_randomsSize = 1073741824, pm_controlSize = 0,
      pm_mapFromGaussian = (\<lambda>r. [sum_list r])\<rparr>"

definition wide_composed :: "real ComposedStationaryProcessModel" where
  "wide_composed = \<lparr>process_models = [wide_model, wide_model, wide_model, wide_model]\<rparr>"

section \<open>Robust Gaussian filter\<close>

text \<open>
  Source: \<^verbatim>\<open>fl/filter/gaussian/robust_gaussian_filter.hpp\<close>. The class holds one member, the
  wrapped Gaussian filter, instantiated with the robust feature observation model in the
  place of the observation model. The classes it builds on (\<^verbatim>\<open>Gaussian\<close>,
  \<^verbatim>\<open>GaussianFilter\<close> with its policies and quadrature, \<^verbatim>\<open>RobustFeatureObsrvModel\<close>) are not among
  the sources; what the wrapper uses of them is declared here, their member functions as
  parameters. State, input, observation and noise vectors are lists of scalars.
\<close>

text \<open>
  Modelled from the spec: the class \<^verbatim>\<open>Gaussian\<close>, the Gaussian belief of the data model: a mean
  vector and a covariance matrix (the list of its rows).
\<close>

record 'a Gaussian =
  mean :: "'a list"
  covariance :: "'a list list"

text \<open>
  Modelled from the spec: the data of the class \<^verbatim>\<open>GaussianFilter\<close>, the engine. It holds the
  process model, the observation model it was constructed with and its quadrature, which
  the accessors \<^verbatim>\<open>process_model()\<close>, \<^verbatim>\<open>obsrv_model()\<close> and \<^verbatim>\<open>quadrature()\<close> return by reference; the
  specialisation arguments of the constructor determine the quadrature.
\<close>

record ('pm, 'obs, 'q) GaussianFilter =
  gf_process_model :: 'pm
  gf_obsrv_model :: 'obs
  gf_quadrature :: 'q

definition GaussianFilter_ctor :: "'pm \<Rightarrow> 'obs \<Rightarrow> 'q \<Rightarrow> ('pm, 'obs, 'q) GaussianFilter" where
  "GaussianFilter_ctor process_model obsrv_model args =
     \<lparr>gf_process_model = process_model, gf_obsrv_model = obsrv_model, gf_quadrature = args\<rparr>"

text \<open>
  The member functions of the library that the wrapper calls, taken as parameters. \<open>'om\<close>
  is the raw observation model, \<open>'fom\<close> the feature observation model, \<open>'q\<close> the quadrature.
  \<^item> \<open>Gaussian_ctor\<close>: the constructor \<^verbatim>\<open>Gaussian<T>(dimension)\<close>;
  \<^item> \<open>obsrv_dimension\<close>, \<open>noise_dimension\<close>, \<open>observation\<close>: the raw observation model;
  \<^item> \<open>FeatureObsrvModel_ctor\<close>: the constructor of the feature model from a raw model;
  \<^item> \<open>embedded_obsrv_model\<close>: the feature model's accessor of the raw model;
  \<^item> \<open>parameters\<close>: the feature model's calibration hook; it changes the feature model, so
    the function returns the feature model after the call;
  \<^item> \<open>feature_obsrv\<close>: the feature model's transform of a raw observation;
  \<^item> \<open>integrate_moments\<close>: the quadrature's moment integration of a function of state and
    noise; its last argument is the distribution object that receives the result;
  \<^item> \<open>GaussianFilter_predict\<close>, \<open>GaussianFilter_update\<close>: the engine's two operations, which
    write the belief they compute into their last C++ argument.
\<close>

record ('a, 'pm, 'om, 'fom, 'q) fl_library =
  Gaussian_ctor :: "int \<Rightarrow> 'a Gaussian"
  obsrv_dimension :: "'om \<Rightarrow> int"
  noise_dimension :: "'om \<Rightarrow> int"
  observation :: "'om \<Rightarrow> 'a list \<Rightarrow> 'a list \<Rightarrow> 'a list"
  FeatureObsrvModel_ctor :: "'om \<Rightarrow> 'fom"
  embedded_obsrv_model :: "'fom \<Rightarrow> 'om"
  parameters :: "'fom \<Rightarrow> 'a Gaussian \<Rightarrow> 'a list \<Rightarrow> 'fom"
  feature_obsrv :: "'fom \<Rightarrow> 'a list \<Rightarrow> 'a list"
  integrate_moments ::
    "'q \<Rightarrow> ('a list \<Rightarrow> 'a list \<Rightarrow> 'a list) \<Rightarrow> 'a Gaussian \<Rightarrow> 'a Gaussian \<Rightarrow> 'a Gaussian
       \<Rightarrow> 'a Gaussian"
  GaussianFilter_predict :: "('pm, 'fom, 'q) GaussianFilter \<Rightarrow> 'a Gaussian \<Rightarrow> 'a list \<Rightarrow> 'a Gaussian"
  GaussianFilter_update :: "('pm, 'fom, 'q) GaussianFilter \<Rightarrow> 'a Gaussian \<Rightarrow> 'a list \<Rightarrow> 'a Gaussian"

subsection \<open>The class \<^verbatim>\<open>RobustGaussianFilter\<close>\<close>

text \<open>The member \<^verbatim>\<open>gaussian_filter_\<close>.\<close>

record ('pm, 'fom, 'q) RobustGaussianFilter =
  gaussian_filter :: "('pm, 'fom, 'q) GaussianFilter"

text \<open>The constructor: the engine is built on the feature model that wraps \<open>obsrv_model\<close>.\<close>

definition RobustGaussianFilter_ctor ::
  "('a, 'pm, 'om, 'fom, 'q) fl_library \<Rightarrow> 'pm \<Rightarrow> 'om \<Rightarrow> 'q \<Rightarrow> ('pm, 'fom, 'q) RobustGaussianFilter" where
  "RobustGaussianFilter_ctor lib process_model obsrv_model args =
     \<lparr>gaussian_filter =
        GaussianFilter_ctor process_model (FeatureObsrvModel_ctor lib obsrv_model) args\<rparr>"

text \<open>The accessors (the const and the non-const overloads return the same object).\<close>

definition process_model :: "('pm, 'fom, 'q) RobustGaussianFilter \<Rightarrow> 'pm" where
  "process_model f = gf_process_model (gaussian_filter f)"

definition obsrv_model ::
  "('a, 'pm, 'om, 'fom, 'q) fl_library \<Rightarrow> ('pm, 'fom, 'q) RobustGaussianFilter \<Rightarrow> 'om" where
  "obsrv_model lib f = embedded_obsrv_model lib (gf_obsrv_model (gaussian_filter f))"

definition robust_feature_obsrv_model :: "('pm, 'fom, 'q) RobustGaussianFilter \<Rightarrow> 'fom" where
  "robust_feature_obsrv_model f = gf_obsrv_model (gaussian_filter f)"

text \<open>\<^verbatim>\<open>predict\<close>: the result is the predicted belief written by the engine.\<close>

definition predict ::
  "('a, 'pm, 'om, 'fom, 'q) fl_library \<Rightarrow> ('pm, 'fom, 'q) RobustGaussianFilter
     \<Rightarrow> 'a Gaussian \<Rightarrow> 'a list \<Rightarrow> 'a Gaussian" where
  "predict lib f prior_belief input =
     GaussianFilter_predict lib (gaussian_filter f) prior_belief input"

text \<open>
  \<^verbatim>\<open>update\<close>: the result is the posterior belief together with the filter object as the call
  leaves it (the feature model inside the engine has been recalibrated). The statements of
  the source in their order: the two distributions are constructed, the lambda \<open>h\<close> is the
  raw model's observation function, the quadrature integrates its moments into
  \<open>body_distr\<close>, the feature model receives \<open>body_distr\<close> and the mean of the predicted
  belief, and the engine's update runs on the feature of the observation.
\<close>

definition update ::
  "('a, 'pm, 'om, 'fom, 'q) fl_library \<Rightarrow> ('pm, 'fom, 'q) RobustGaussianFilter
     \<Rightarrow> 'a Gaussian \<Rightarrow> 'a list \<Rightarrow> 'a Gaussian \<times> ('pm, 'fom, 'q) RobustGaussianFilter" where
  "update lib f predicted_belief obsrv =
     (let body_distr = Gaussian_ctor lib (obsrv_dimension lib (obsrv_model lib f));
          noise_distr = Gaussian_ctor lib (noise_dimension lib (obsrv_model lib f));
          h = (\<lambda>x w. observation lib (obsrv_model lib f) x w);
          body_distr = integrate_moments lib (gf_quadrature (gaussian_filter f))
                         h predicted_belief noise_distr body_distr;
          f = f\<lparr>gaussian_filter := (gaussian_filter f)
                 \<lparr>gf_obsrv_model :=
                    parameters lib (gf_obsrv_model (gaussian_filter f))
                      body_distr (mean predicted_belief)\<rparr>\<rparr>;
          posterior_belief =
            GaussianFilter_update lib (gaussian_filter f) predicted_belief
              (feature_obsrv lib (gf_obsrv_model (gaussian_filter f)) obsrv)
      in (posterior_belief, f))"

subsection \<open>Vocabulary for the statements\<close>

text \<open>
  The body distribution as the specification words it: the first two moments of the raw
  observation function, integrated by the engine's quadrature under the predicted belief
  and the noise distribution of the raw model's noise dimension.
\<close>

definition body_distribution ::
  "('a, 'pm, 'om, 'fom, 'q) fl_library \<Rightarrow> ('pm, 'fom, 'q) RobustGaussianFilter \<Rightarrow> 'a Gaussian
     \<Rightarrow> 'a Gaussian" where
  "body_distribution lib f predicted_belief =
     integrate_moments lib (gf_quadrature (gaussian_filter f))
       (observation lib (obsrv_model lib f)) predicted_belief
       (Gaussian_ctor lib (noise_dimension lib (obsrv_model lib f)))
       (Gaussian_ctor lib (obsrv_dimension lib (obsrv_model lib f)))"

text \<open>
  The filter object with its feature model calibrated for a predicted belief: the state
  in which \<^verbatim>\<open>update\<close> transforms the observation and calls the engine.
\<close>

definition calibrated ::
  "('a, 'pm, 'om, 'fom, 'q) fl_library \<Rightarrow> ('pm, 'fom, 'q) RobustGaussianFilter \<Rightarrow> 'a Gaussian
     \<Rightarrow> ('pm, 'fom, 'q) RobustGaussianFilter" where
  "calibrated lib f predicted_belief =
     f\<lparr>gaussian_filter := (gaussian_filter f)
        \<lparr>gf_obsrv_model :=
           parameters lib (robust_feature_obsrv_model f)
             (body_distribution lib f predicted_belief) (mean predicted_belief)\<rparr>\<rparr>"

text \<open>
  Two filter objects have the same model parameters when they hold the same process
  model, the same raw observation model and the same quadrature; the calibration that
  earlier calls have left in the feature model may differ.
\<close>

definition same_model_parameters ::
  "('a, 'pm, 'om, 'fom, 'q) fl_library \<Rightarrow> ('pm, 'fom, 'q) RobustGaussianFilter
     \<Rightarrow> ('pm, 'fom, 'q) RobustGaussianFilter \<Rightarrow> bool" where
  "same_model_parameters lib f f' \<longleftrightarrow>
     process_model f = process_model f' \<and> obsrv_model lib f = obsrv_model lib f' \<and>
     gf_quadrature (gaussian_filter f) = gf_quadrature (gaussian_filter f')"

subsection \<open>The library as the specification describes it\<close>

text \<open>
  Modelled from the spec: the class \<^verbatim>\<open>RobustFeatureObsrvModel\<close> (missing from the sources). The
  feature observation model wraps a base observation model and holds the current
  body-distribution estimate; its calibration hook takes the body distribution and a
  reference state.
\<close>

record ('om, 'a) RobustFeatureObsrvModel =
  base_obsrv_model :: 'om
  body_gaussian :: "'a Gaussian"
  mean_state :: "'a list"

text \<open>
  Modelled from the spec: what the specification says of the missing member functions.
  The feature model's accessor returns the wrapped base model; the calibration hook
  refreshes the body-distribution parameters, that is, it replaces the estimate held so
  far; the engine's \<^verbatim>\<open>predict\<close> advances the belief through the process model with the
  quadrature, as a function of its typed inputs and these model parameters.
\<close>

definition as_specified ::
  "('a, 'pm, 'om, ('om, 'a) RobustFeatureObsrvModel, 'q) fl_library \<Rightarrow> bool" where
  "as_specified lib \<longleftrightarrow>
     (\<forall>fom. embedded_obsrv_model lib fom = base_obsrv_model fom) \<and>
     (\<forall>fom body_distr x.
        parameters lib fom body_distr x = fom\<lparr>body_gaussian := body_distr, mean_state := x\<rparr>) \<and>
     (\<forall>gf gf' prior_belief input.
        gf_process_model gf = gf_process_model gf' \<and> gf_quadrature gf = gf_quadrature gf' \<longrightarrow>
        GaussianFilter_predict lib gf prior_belief input =
          GaussianFilter_predict lib gf' prior_belief input)"

subsection \<open>A small instance\<close>

text \<open>
  A one-dimensional instance for evaluating the definitions: the process model is a gain,
  the raw observation model a sensor gain with additive noise, the quadrature evaluates
  the function at the means, and the feature of an observation is its distance from the
  body mean.
\<close>

definition scalar_library ::
  "(real, real, real, (real, real) RobustFeatureObsrvModel, unit) fl_library" where
  "scalar_library =
     \<lparr>Gaussian_ctor =
        (\<lambda>d. \<lparr>mean = replicate (nat d) 0, covariance = replicate (nat d) (replicate (nat d) 1)\<rparr>),
      obsrv_dimension = (\<lambda>om. 1),
      noise_dimension = (\<lambda>om. 1),
      observation = (\<lambda>om x w. map2 (+) (map ((*) om) x) w),
      FeatureObsrvModel_ctor =
        (\<lambda>om. \<lparr>base_obsrv_model = om, body_gaussian = \<lparr>mean = [0], covariance = [[1]]\<rparr>,
               mean_state = [0]\<rparr>),
      embedded_obsrv_model = base_obsrv_model,
      parameters = (\<lambda>fom body_distr x. fom\<lparr>body_gaussian := body_distr, mean_state := x\<rparr>),
      feature_obsrv = (\<lambda>fom y. map2 (-) y (mean (body_gaussian fom))),
      integrate_moments = (\<lambda>q h p n b. \<lparr>mean = h (mean p) (mean n), covariance = covariance p\<rparr>),
      GaussianFilter_predict =
        (\<lambda>gf b u. \<lparr>mean = map2 (+) (map ((*) (gf_process_model gf)) (mean b)) u,
                    covariance = covariance b\<rparr>),
      GaussianFilter_update = (\<lambda>gf b y. \<lparr>mean = map2 (+) (mean b) y, covariance = covariance b\<rparr>)\<rparr>"

definition fresh_filter :: "(real, (real, real) RobustFeatureObsrvModel, unit) RobustGaussianFilter" where
  "fresh_filter = RobustGaussianFilter_ctor scalar_library 2 3 ()"

definition used_filter :: "(real, (real, real) RobustFeatureObsrvModel, unit) RobustGaussianFilter" where
  "used_filter = snd (update scalar_library fresh_filter \<lparr>mean = [5], covariance = [[1]]\<rparr> [7])"

section \<open>Sigma-point quadrature\<close>

text \<open>
  The quadrature that \<^verbatim>\<open>RobustGaussianFilter::update\<close> calls
  (\<^verbatim>\<open>quadrature().integrate_moments\<close>) is not among the sources. This section models it from the
  specification, over the real numbers. A matrix is the list of its rows.
\<close>

text \<open>
  Modelled from the spec: the sigma-point set, an ordered collection of points with a
  weight for the mean and a weight for the covariance.
\<close>

record sigma_point =
  point :: "real list"
  weight_mean :: real
  weight_cov :: real

text \<open>
  Modelled from the spec: the generation of the sigma points of a Gaussian (the code is
  missing). The standard unscented construction: \<open>2 * n + 1\<close> points for dimension \<open>n\<close>, the
  central point at the mean, and a symmetric pair of points for every column of the matrix
  square root of the scaled covariance. The spread constant \<open>spread\<close> sets the scaling
  \<open>n + spread\<close>, the weight \<open>spread / (n + spread)\<close> of the central point and the weight
  \<open>1 / (2 * (n + spread))\<close> of every other point; \<open>central_cov\<close> is what the central point's
  covariance weight has on top of its mean weight. The matrix square root is the external
  linear-algebra primitive \<open>matrix_sqrt\<close>.
\<close>

definition sigma_point_set ::
  "real \<Rightarrow> real \<Rightarrow> (real list list \<Rightarrow> real list list) \<Rightarrow> real Gaussian \<Rightarrow> sigma_point list" where
  "sigma_point_set spread central_cov matrix_sqrt g =
     (let n = length (mean g);
          scaled_covariance = map (map ((*) (real n + spread))) (covariance g);
          S = matrix_sqrt scaled_covariance;
          w0 = spread / (real n + spread);
          w = 1 / (2 * (real n + spread))
      in \<lparr>point = mean g, weight_mean = w0, weight_cov = w0 + central_cov\<rparr>
         # map (\<lambda>i. \<lparr>point = map (\<lambda>j. mean g ! j + S ! j ! i) [0..<n],
                      weight_mean = w, weight_cov = w\<rparr>) [0..<n]
         @ map (\<lambda>i. \<lparr>point = map (\<lambda>j. mean g ! j - S ! j ! i) [0..<n],
                      weight_mean = w, weight_cov = w\<rparr>) [0..<n])"

text \<open>
  Modelled from the spec: the moment integration of a function through the sigma points
  (the code is missing): the function is evaluated at every point, and the values are
  recombined into the weighted mean and the weighted outer-product covariance. \<open>m\<close> is the
  dimension of the function's values.
\<close>

definition weighted_mean :: "nat \<Rightarrow> (real list \<Rightarrow> real list) \<Rightarrow> sigma_point list \<Rightarrow> real list" where
  "weighted_mean m f ps = map (\<lambda>j. \<Sum>p\<leftarrow>ps. weight_mean p * (f (point p) ! j)) [0..<m]"

definition weighted_covariance ::
  "nat \<Rightarrow> (real list \<Rightarrow> real list) \<Rightarrow> sigma_point list \<Rightarrow> real list \<Rightarrow> real list list" where
  "weighted_covariance m f ps mu =
     map (\<lambda>j. map (\<lambda>k. \<Sum>p\<leftarrow>ps. weight_cov p * (f (point p) ! j - mu ! j) * (f (point p) ! k - mu ! k))
                 [0..<m])
       [0..<m]"

definition sigma_point_integrate_moments ::
  "real \<Rightarrow> real \<Rightarrow> (real list list \<Rightarrow> real list list) \<Rightarrow> nat \<Rightarrow> (real list \<Rightarrow> real list)
     \<Rightarrow> real Gaussian \<Rightarrow> real Gaussian" where
  "sigma_point_integrate_moments spread central_cov matrix_sqrt m f g =
     (let ps = sigma_point_set spread central_cov matrix_sqrt g;
          mu = weighted_mean m f ps
      in \<lparr>mean = mu, covariance = weighted_covariance m f ps mu\<rparr>)"

subsection \<open>Vocabulary for the statements\<close>

text \<open>\<open>S\<close> is a square root of the \<open>n \<times> n\<close> matrix \<open>M\<close>: \<open>S\<close> times its transpose is \<open>M\<close>.\<close>

definition is_matrix_sqrt :: "nat \<Rightarrow> real list list \<Rightarrow> real list list \<Rightarrow> bool" where
  "is_matrix_sqrt n S M \<longleftrightarrow>
     (\<forall>j<n. \<forall>k<n. (\<Sum>i\<leftarrow>[0..<n]. S ! j ! i * S ! k ! i) = M ! j ! k)"

text \<open>A Gaussian of dimension \<open>n\<close>: a mean of \<open>n\<close> rows and a covariance of \<open>n\<close> rows and columns.\<close>

definition gaussian_dimension :: "nat \<Rightarrow> real Gaussian \<Rightarrow> bool" where
  "gaussian_dimension n g \<longleftrightarrow>
     length (mean g) = n \<and> length (covariance g) = n \<and> list_all (\<lambda>row. length row = n) (covariance g)"

text \<open>The affine function \<open>x \<mapsto> A x + b\<close>, and the matrix \<open>A P A\<^sup>T\<close>.\<close>

definition affine :: "real list list \<Rightarrow> real list \<Rightarrow> real list \<Rightarrow> real list" where
  "affine A b x = map (\<lambda>j. (\<Sum>l\<leftarrow>[0..<length x]. A ! j ! l * x ! l) + b ! j) [0..<length b]"

definition congruence :: "nat \<Rightarrow> real list list \<Rightarrow> real list list \<Rightarrow> real list list" where
  "congruence m A P =
     map (\<lambda>j. map (\<lambda>k. \<Sum>l\<leftarrow>[0..<length P]. \<Sum>l'\<leftarrow>[0..<length P]. A ! j ! l * P ! l ! l' * A ! k ! l')
                 [0..<m])
       [0..<m]"

text \<open>
  A square-root primitive for the example below: it answers with the lower triangular
  factor of the one matrix it is asked about.
\<close>

definition example_sqrt :: "real list list \<Rightarrow> real list list" where
  "example_sqrt M = (if M = [[16, 8], [8, 40]] then [[4, 0], [2, 6]] else M)"

definition example_gaussian :: "real Gaussian" where
  "example_gaussian = \<lparr>mean = [1, -2], covariance = [[4, 2], [2, 10]]\<rparr>"

section \<open>Properties of the composed process model\<close>

subsection \<open>Machine arithmetic\<close>

lemma foldl_word_sum:
  "foldl (\<lambda>t m. t + f m) (a::32 word) ms = a + (\<Sum>m\<leftarrow>ms. f m)"
  by (induction ms arbitrary: a) (simp_all add: add.assoc)

lemma stb_sint32: "signed_take_bit 31 (sint (a::32 word)) = sint a"
  using sint_ge [of a] sint_lt [of a] by (simp add: signed_take_bit_int_eq_self)

lemma stb_add_sint32:
  "signed_take_bit 31 (sint (a::32 word) + signed_take_bit 31 k) = signed_take_bit 31 (sint a + k)"
  using signed_take_bit_add [of 31 "sint a" k] by (simp add: stb_sint32)

lemma sint_sum_list32:
  "sint (\<Sum>m\<leftarrow>ms. (f m :: 32 word)) = signed_take_bit 31 (\<Sum>m\<leftarrow>ms. sint (f m))"
proof (induction ms)
  case Nil
  then show ?case by simp
next
  case (Cons m ms)
  have "sint (f m + (\<Sum>m\<leftarrow>ms. f m)) = signed_take_bit 31 (sint (f m) + sint (\<Sum>m\<leftarrow>ms. f m))"
    by (simp add: sint_word_ariths)
  also have "\<dots> = signed_take_bit 31 (sint (f m) + signed_take_bit 31 (\<Sum>m\<leftarrow>ms. sint (f m)))"
    by (simp only: Cons.IH)
  also have "\<dots> = signed_take_bit 31 (sint (f m) + (\<Sum>m\<leftarrow>ms. sint (f m)))"
    by (rule stb_add_sint32)
  finally show ?case by simp
qed

lemma sint_total:
  "sint (foldl (\<lambda>t m. t + f m) (0::32 word) ms) = signed_take_bit 31 (\<Sum>m\<leftarrow>ms. sint (f m))"
  by (simp add: foldl_word_sum sint_sum_list32)

lemma sint_total_exact_iff:
  "sint (foldl (\<lambda>t m. t + f m) (0::32 word) ms) = (\<Sum>m\<leftarrow>ms. sint (f m))
     \<longleftrightarrow> - (2 ^ 31) \<le> (\<Sum>m\<leftarrow>ms. sint (f m)) \<and> (\<Sum>m\<leftarrow>ms. sint (f m)) < 2 ^ 31"
  by (simp add: sint_total signed_take_bit_int_eq_self_iff)

lemma sint_scast_32_64: "sint (scast (x::32 word) :: 64 word) = sint x"
  by (simp add: sint_up_scast is_up)

lemma sint_index_add:
  fixes i :: "64 word" and x :: "32 word"
  assumes "0 \<le> sint i" "sint i < 2 ^ 32" "0 \<le> sint x"
  shows "sint (i + scast x) = sint i + sint x"
proof -
  have b: "sint x < 2 ^ 31" using sint_lt [of x] by simp
  have "sint (i + scast x) = signed_take_bit 63 (sint i + sint (scast x :: 64 word))"
    by (simp add: sint_word_ariths)
  also have "\<dots> = signed_take_bit 63 (sint i + sint x)" by (simp add: sint_scast_32_64)
  also have "\<dots> = sint i + sint x"
    using assms b by (intro signed_take_bit_int_eq_self) auto
  finally show ?thesis .
qed

lemma sint_index_add_nat:
  fixes i :: "64 word" and x :: "32 word"
  assumes "sint i = int I" "I < 2 ^ 31" "0 \<le> sint x"
  shows "sint (i + scast x) = int (I + nat (sint x))"
proof -
  have "sint i < 2 ^ 32" using assms(1,2) by simp
  then show ?thesis using sint_index_add [of i x] assms by simp
qed

subsection \<open>Blocks\<close>

lemma middleRows_nat:
  "middleRows v (int i) (int n) =
     (if i + n \<le> length v then Inr (take n (drop i v)) else Inl Eigen_assertion_failed)"
  by (auto simp: middleRows_def)

lemma assign_middleRows_nat:
  "assign_middleRows v (int i) (int n) src =
     (if i + n \<le> length v \<and> length src = n then Inr (take i v @ src @ drop (i + n) v)
      else Inl Eigen_assertion_failed)"
  by (auto simp: assign_middleRows_def)

lemma blocks_take: "sum_list ns \<le> n \<Longrightarrow> blocks ns (take n v) = blocks ns v"
proof (induction ns arbitrary: n v)
  case Nil
  then show ?case by simp
next
  case (Cons k ns)
  then have "blocks ns (take (n - k) (drop k v)) = blocks ns (drop k v)"
    by (intro Cons.IH) simp
  with Cons.prems show ?case by (simp add: drop_take min_def)
qed

lemma length_blocks: "length (blocks ns v) = length ns"
  by (induction ns arbitrary: v) simp_all

lemma map_length_blocks: "sum_list ns \<le> length v \<Longrightarrow> map length (blocks ns v) = ns"
  by (induction ns arbitrary: v) simp_all

lemma concat_blocks: "concat (blocks ns v) = take (sum_list ns) v"
proof (induction ns arbitrary: v)
  case Nil
  then show ?case by simp
next
  case (Cons k ns)
  show ?case by (simp add: Cons.IH take_add)
qed

lemma blocks_concat: "map length xs = ns \<Longrightarrow> blocks ns (concat xs) = xs"
  by (induction xs arbitrary: ns) auto

lemma sum_sint_nonnegative:
  "list_all sizes_nonnegative ms \<Longrightarrow>
     sum_variableSize ms = int (sum_list (map variable_dim ms)) \<and>
     sum_randomsSize ms = int (sum_list (map randoms_dim ms)) \<and>
     sum_controlSize ms = int (sum_list (map control_dim ms))"
  by (induction ms)
    (simp_all add: sum_variableSize_def sum_randomsSize_def sum_controlSize_def
       sizes_nonnegative_def variable_dim_def randoms_dim_def control_dim_def)

subsection \<open>The two loops\<close>

lemma mapFromGaussian_loop_char:
  assumes "list_all sizes_nonnegative ms" "list_all returns_variableSize ms"
    and "sint vi = int V" "sint ri = int R"
    and "V + sum_list (map variable_dim ms) \<le> length variables" "length variables < 2 ^ 31"
    and "R + sum_list (map randoms_dim ms) < 2 ^ 31" "R \<le> length randoms"
  shows "mapFromGaussian_loop ms randoms variables vi ri =
     (if R + sum_list (map randoms_dim ms) \<le> length randoms
      then Inr (take V variables
                @ map Some (concat (map2 pm_mapFromGaussian ms
                                      (blocks (map randoms_dim ms) (drop R randoms))))
                @ drop (V + sum_list (map variable_dim ms)) variables)
      else Inl Eigen_assertion_failed)"
  using assms
proof (induction ms arbitrary: variables vi ri V R)
  case Nil
  then show ?case by simp
next
  case (Cons m ms)
  define v where "v = variable_dim m"
  define r where "r = randoms_dim m"
  from Cons.prems(1) have sv: "sint (pm_variableSize m) = int v" and sr: "sint (pm_randomsSize m) = int r"
    and nn: "0 \<le> sint (pm_variableSize m)" "0 \<le> sint (pm_randomsSize m)"
    by (simp_all add: sizes_nonnegative_def v_def r_def variable_dim_def randoms_dim_def)
  from Cons.prems(2) have len: "\<And>x. length x = r \<Longrightarrow> length (pm_mapFromGaussian m x) = v"
    by (simp add: returns_variableSize_def v_def r_def)
  have Vb: "V < 2 ^ 31" and Rb: "R < 2 ^ 31" using Cons.prems(5,6,7) by simp_all
  have vi': "sint (vi + scast (pm_variableSize m)) = int (V + v)"
    using sint_index_add_nat [OF Cons.prems(3) Vb nn(1)] by (simp add: v_def variable_dim_def)
  have ri': "sint (ri + scast (pm_randomsSize m)) = int (R + r)"
    using sint_index_add_nat [OF Cons.prems(4) Rb nn(2)] by (simp add: r_def randoms_dim_def)
  show ?case
  proof (cases "R + r \<le> length randoms")
    case False
    then show ?thesis
      by (simp add: Cons.prems(4) sr middleRows_nat r_def)
  next
    case True
    define x where "x = take r (drop R randoms)"
    have lx: "length x = r" using True by (simp add: x_def)
    define src where "src = pm_mapFromGaussian m x"
    have ls: "length src = v" using len [OF lx] by (simp add: src_def)
    define variables' where "variables' = take V variables @ map Some src @ drop (V + v) variables"
    have Vv: "V + v \<le> length variables" using Cons.prems(5) by (simp add: v_def)
    have lv': "length variables' = length variables"
      using Vv by (simp add: variables'_def ls)
    have step: "mapFromGaussian_loop (m # ms) randoms variables vi ri =
        mapFromGaussian_loop ms randoms variables'
          (vi + scast (pm_variableSize m)) (ri + scast (pm_randomsSize m))"
      using True Vv ls
      by (simp add: Cons.prems(3,4) sv sr middleRows_nat assign_middleRows_nat x_def [symmetric]
          src_def [symmetric] variables'_def)
    have IH: "mapFromGaussian_loop ms randoms variables'
          (vi + scast (pm_variableSize m)) (ri + scast (pm_randomsSize m)) =
       (if (R + r) + sum_list (map randoms_dim ms) \<le> length randoms
        then Inr (take (V + v) variables'
                @ map Some (concat (map2 pm_mapFromGaussian ms
                                      (blocks (map randoms_dim ms) (drop (R + r) randoms))))
                @ drop ((V + v) + sum_list (map variable_dim ms)) variables')
        else Inl Eigen_assertion_failed)"
      using Cons.prems True by (intro Cons.IH vi' ri') (simp_all add: lv' v_def r_def)
    have t: "take (V + v) variables' = take V variables @ map Some src"
      using Vv by (simp add: variables'_def ls)
    have d: "drop ((V + v) + sum_list (map variable_dim ms)) variables'
             = drop (V + v + sum_list (map variable_dim ms)) variables"
      using Vv by (simp add: variables'_def ls add.commute add.left_commute)
    show ?thesis
      unfolding step IH t d
      by (simp add: v_def [symmetric] r_def [symmetric] x_def src_def add.assoc add.commute [of r R])
  qed
qed

lemma conditionals_loop_char:
  assumes "list_all sizes_nonnegative ms"
    and "sint si = int S" "sint ci = int C"
    and "S + sum_list (map variable_dim ms) < 2 ^ 31" "C + sum_list (map control_dim ms) < 2 ^ 31"
    and "S \<le> length state" "C \<le> length control"
  shows "conditionals_loop ms delta_time state control si ci =
     (if S + sum_list (map variable_dim ms) \<le> length state
         \<and> C + sum_list (map control_dim ms) \<le> length control
      then Inr (map (Pair delta_time)
                 (zip (blocks (map variable_dim ms) (drop S state))
                      (blocks (map control_dim ms) (drop C control))))
      else Inl Eigen_assertion_failed)"
  using assms
proof (induction ms arbitrary: si ci S C)
  case Nil
  then show ?case by simp
next
  case (Cons m ms)
  define v where "v = variable_dim m"
  define k where "k = control_dim m"
  from Cons.prems(1) have sv: "sint (pm_variableSize m) = int v" and sk: "sint (pm_controlSize m) = int k"
    and nn: "0 \<le> sint (pm_variableSize m)" "0 \<le> sint (pm_controlSize m)"
    by (simp_all add: sizes_nonnegative_def v_def k_def variable_dim_def control_dim_def)
  have Sb: "S < 2 ^ 31" and Cb: "C < 2 ^ 31" using Cons.prems(4,5) by simp_all
  have si': "sint (si + scast (pm_variableSize m)) = int (S + v)"
    using sint_index_add_nat [OF Cons.prems(2) Sb nn(1)] by (simp add: v_def variable_dim_def)
  have ci': "sint (ci + scast (pm_controlSize m)) = int (C + k)"
    using sint_index_add_nat [OF Cons.prems(3) Cb nn(2)] by (simp add: k_def control_dim_def)
  show ?case
  proof (cases "S + v \<le> length state \<and> C + k \<le> length control")
    case False
    then show ?thesis
      by (auto simp add: Cons.prems(2,3) sv sk middleRows_nat v_def k_def)
  next
    case True
    have IH: "conditionals_loop ms delta_time state control
          (si + scast (pm_variableSize m)) (ci + scast (pm_controlSize m)) =
       (if (S + v) + sum_list (map variable_dim ms) \<le> length state
           \<and> (C + k) + sum_list (map control_dim ms) \<le> length control
        then Inr (map (Pair delta_time)
                   (zip (blocks (map variable_dim ms) (drop (S + v) state))
                        (blocks (map control_dim ms) (drop (C + k) control))))
        else Inl Eigen_assertion_failed)"
      using Cons.prems True by (intro Cons.IH si' ci') (simp_all add: v_def k_def)
    show ?thesis
      using True
      by (simp add: Cons.prems(2,3) sv sk middleRows_nat IH v_def [symmetric] k_def [symmetric]
          add.assoc add.commute [of v S] add.commute [of k C])
  qed
qed

subsection \<open>The member functions\<close>

lemma mapFromGaussian_char:
  assumes "dimensions_fit (process_models c)" "list_all returns_variableSize (process_models c)"
  shows "mapFromGaussian c randoms =
     (if sint (randomsSize c) \<le> int (length randoms)
      then Inr (map Some (concat (map2 pm_mapFromGaussian (process_models c)
                                    (blocks (map randoms_dim (process_models c)) randoms))))
      else Inl Eigen_assertion_failed)"
proof -
  let ?ms = "process_models c"
  from assms(1) have nn: "list_all sizes_nonnegative ?ms"
    and bv: "sum_variableSize ?ms < 2 ^ 31" and br: "sum_randomsSize ?ms < 2 ^ 31"
    by (simp_all add: dimensions_fit_def)
  note sums = sum_sint_nonnegative [OF nn]
  have vs: "sint (variableSize c) = int (sum_list (map variable_dim ?ms))"
    using sums bv
    by (simp add: variableSize_def total_count_state_def sint_total
        sum_variableSize_def signed_take_bit_int_eq_self)
  have rs: "sint (randomsSize c) = int (sum_list (map randoms_dim ?ms))"
    using sums br
    by (simp add: randomsSize_def total_count_randoms_def sint_total
        sum_randomsSize_def signed_take_bit_int_eq_self)
  have bv': "sum_list (map variable_dim ?ms) < 2 ^ 31" using sums bv by simp
  have br': "sum_list (map randoms_dim ?ms) < 2 ^ 31" using sums br by simp
  have "mapFromGaussian_loop ?ms randoms
          (replicate (sum_list (map variable_dim ?ms)) None) 0 0 =
     (if 0 + sum_list (map randoms_dim ?ms) \<le> length randoms
      then Inr (take 0 (replicate (sum_list (map variable_dim ?ms)) None)
                @ map Some (concat (map2 pm_mapFromGaussian ?ms
                                      (blocks (map randoms_dim ?ms) (drop 0 randoms))))
                @ drop (0 + sum_list (map variable_dim ?ms))
                    (replicate (sum_list (map variable_dim ?ms)) None))
      else Inl Eigen_assertion_failed)"
    using nn assms(2) bv' br' by (intro mapFromGaussian_loop_char) simp_all
  then show ?thesis
    by (simp add: mapFromGaussian_def vs rs)
qed

lemma conditionals_char:
  assumes "dimensions_fit (process_models c)"
  shows "conditionals c delta_time state control =
     (if sint (variableSize c) \<le> int (length state) \<and> sint (controlSize c) \<le> int (length control)
      then Inr (map (Pair delta_time)
                 (zip (blocks (map variable_dim (process_models c)) state)
                      (blocks (map control_dim (process_models c)) control)))
      else Inl Eigen_assertion_failed)"
proof -
  let ?ms = "process_models c"
  from assms(1) have nn: "list_all sizes_nonnegative ?ms"
    and bv: "sum_variableSize ?ms < 2 ^ 31" and bc: "sum_controlSize ?ms < 2 ^ 31"
    by (simp_all add: dimensions_fit_def)
  note sums = sum_sint_nonnegative [OF nn]
  have vs: "sint (variableSize c) = int (sum_list (map variable_dim ?ms))"
    using sums bv
    by (simp add: variableSize_def total_count_state_def sint_total
        sum_variableSize_def signed_take_bit_int_eq_self)
  have cs: "sint (controlSize c) = int (sum_list (map control_dim ?ms))"
    using sums bc
    by (simp add: controlSize_def total_count_control_def sint_total
        sum_controlSize_def signed_take_bit_int_eq_self)
  have bv': "sum_list (map variable_dim ?ms) < 2 ^ 31" using sums bv by simp
  have bc': "sum_list (map control_dim ?ms) < 2 ^ 31" using sums bc by simp
  have "conditionals_loop ?ms delta_time state control 0 0 =
     (if 0 + sum_list (map variable_dim ?ms) \<le> length state
         \<and> 0 + sum_list (map control_dim ?ms) \<le> length control
      then Inr (map (Pair delta_time)
                 (zip (blocks (map variable_dim ?ms) (drop 0 state))
                      (blocks (map control_dim ?ms) (drop 0 control))))
      else Inl Eigen_assertion_failed)"
    using nn bv' bc' by (intro conditionals_loop_char) simp_all
  then show ?thesis
    by (simp add: conditionals_def vs cs)
qed

lemma map_length_component_results:
  "list_all returns_variableSize ms \<Longrightarrow> map length bs = map randoms_dim ms \<Longrightarrow>
     map length (map2 pm_mapFromGaussian ms bs) = map variable_dim ms"
proof (induction ms arbitrary: bs)
  case Nil
  then show ?case by simp
next
  case (Cons m ms)
  then obtain b bs' where bs: "bs = b # bs'" by (cases bs) auto
  with Cons show ?case by (simp add: returns_variableSize_def)
qed

lemma small_composed_fits: "dimensions_fit (process_models small_composed)"
  by (simp add: dimensions_fit_def sizes_nonnegative_def sum_variableSize_def sum_randomsSize_def
      sum_controlSize_def small_composed_def doubling_model_def adding_model_def)

lemma small_composed_returns: "list_all returns_variableSize (process_models small_composed)"
  by (simp add: returns_variableSize_def randoms_dim_def variable_dim_def
      small_composed_def doubling_model_def adding_model_def)

lemma small_composed_sizes:
  "sint (variableSize small_composed) = 3" "sint (randomsSize small_composed) = 4"
  "sint (controlSize small_composed) = 1"
  by (simp_all add: variableSize_def randomsSize_def controlSize_def total_count_state_def
      total_count_randoms_def total_count_control_def small_composed_def doubling_model_def
      adding_model_def)

text \<open>
  C8 (as amended). \<^verbatim>\<open>variableSize()\<close>, \<^verbatim>\<open>randomsSize()\<close> and \<^verbatim>\<open>controlSize()\<close> each return the sum
  of the components' sizes reduced modulo \<open>2 ^ 32\<close> into the range of a 32-bit \<^verbatim>\<open>int\<close>; the
  returned value is the sum itself exactly when the sum lies between \<open>- 2 ^ 31\<close> and
  \<open>2 ^ 31 - 1\<close>.
\<close>

theorem composed_sizes_are_wrapped_sums:
  "sint (variableSize c) = signed_take_bit 31 (sum_variableSize (process_models c)) \<and>
   sint (randomsSize c) = signed_take_bit 31 (sum_randomsSize (process_models c)) \<and>
   sint (controlSize c) = signed_take_bit 31 (sum_controlSize (process_models c)) \<and>
   (sint (variableSize c) = sum_variableSize (process_models c) \<longleftrightarrow>
      - (2 ^ 31) \<le> sum_variableSize (process_models c) \<and> sum_variableSize (process_models c) < 2 ^ 31) \<and>
   (sint (randomsSize c) = sum_randomsSize (process_models c) \<longleftrightarrow>
      - (2 ^ 31) \<le> sum_randomsSize (process_models c) \<and> sum_randomsSize (process_models c) < 2 ^ 31) \<and>
   (sint (controlSize c) = sum_controlSize (process_models c) \<longleftrightarrow>
      - (2 ^ 31) \<le> sum_controlSize (process_models c) \<and> sum_controlSize (process_models c) < 2 ^ 31)"
proof -
  have v: "sint (variableSize c) = signed_take_bit 31 (sum_variableSize (process_models c))"
    by (simp add: variableSize_def total_count_state_def sum_variableSize_def sint_total)
  have r: "sint (randomsSize c) = signed_take_bit 31 (sum_randomsSize (process_models c))"
    by (simp add: randomsSize_def total_count_randoms_def sum_randomsSize_def sint_total)
  have k: "sint (controlSize c) = signed_take_bit 31 (sum_controlSize (process_models c))"
    by (simp add: controlSize_def total_count_control_def sum_controlSize_def sint_total)
  show ?thesis
    unfolding v r k by (simp add: signed_take_bit_int_eq_self_iff)
qed

text \<open>
  C8 as stated fails where the \<^verbatim>\<open>unsigned\<close> accumulator wraps: four components of
  \<open>2 ^ 30\<close> random numbers each have the sum \<open>2 ^ 32\<close>, and \<^verbatim>\<open>randomsSize()\<close> returns 0.
\<close>

theorem composed_randomsSize_wraps:
  "sint (randomsSize wide_composed) = 0 \<and>
   sum_randomsSize (process_models wide_composed) = 4294967296"
  by (simp add: randomsSize_def total_count_randoms_def wide_composed_def wide_model_def
      sum_randomsSize_def)

text \<open>
  C9 (as amended). For a composed model whose components declare no negative size, whose
  totals fit an \<^verbatim>\<open>int\<close> and whose components return vectors of their declared
  \<^verbatim>\<open>variableSize()\<close>, and for a randoms vector of \<^verbatim>\<open>randomsSize()\<close> rows: \<^verbatim>\<open>mapFromGaussian\<close>
  returns, with every coefficient written, the concatenation in component order of each
  component's \<^verbatim>\<open>mapFromGaussian\<close> of its own block of the randoms; the blocks are consecutive,
  disjoint, cover the randoms and have the components' \<^verbatim>\<open>randomsSize()\<close> rows; cutting the
  result at the components' \<^verbatim>\<open>variableSize()\<close> gives back the components' results one by
  one; and the result has \<^verbatim>\<open>variableSize()\<close> rows.
\<close>

theorem mapFromGaussian_concatenates_component_results:
  assumes "dimensions_fit (process_models c)"
    and "list_all returns_variableSize (process_models c)"
    and "int (length randoms) = sint (randomsSize c)"
  shows "mapFromGaussian c randoms =
           Inr (map Some (concat (map2 pm_mapFromGaussian (process_models c)
                                    (blocks (map randoms_dim (process_models c)) randoms)))) \<and>
         concat (blocks (map randoms_dim (process_models c)) randoms) = randoms \<and>
         map length (blocks (map randoms_dim (process_models c)) randoms) =
           map randoms_dim (process_models c) \<and>
         blocks (map variable_dim (process_models c))
           (concat (map2 pm_mapFromGaussian (process_models c)
                      (blocks (map randoms_dim (process_models c)) randoms))) =
           map2 pm_mapFromGaussian (process_models c)
             (blocks (map randoms_dim (process_models c)) randoms) \<and>
         int (length (concat (map2 pm_mapFromGaussian (process_models c)
                                (blocks (map randoms_dim (process_models c)) randoms)))) =
           sint (variableSize c)"
proof -
  let ?ms = "process_models c"
  let ?bs = "blocks (map randoms_dim ?ms) randoms"
  let ?out = "map2 pm_mapFromGaussian ?ms ?bs"
  from assms(1) have nn: "list_all sizes_nonnegative ?ms"
    and bv: "sum_variableSize ?ms < 2 ^ 31" and br: "sum_randomsSize ?ms < 2 ^ 31"
    by (simp_all add: dimensions_fit_def)
  note sums = sum_sint_nonnegative [OF nn]
  have wrapped: "sint (variableSize c) = signed_take_bit 31 (sum_variableSize ?ms)"
    "sint (randomsSize c) = signed_take_bit 31 (sum_randomsSize ?ms)"
    by (simp_all add: variableSize_def randomsSize_def total_count_state_def
        total_count_randoms_def sum_variableSize_def sum_randomsSize_def sint_total)
  have vs: "sint (variableSize c) = int (sum_list (map variable_dim ?ms))"
    using sums bv by (simp add: wrapped signed_take_bit_int_eq_self)
  have rs: "sint (randomsSize c) = int (sum_list (map randoms_dim ?ms))"
    using sums br by (simp add: wrapped signed_take_bit_int_eq_self)
  have len: "length randoms = sum_list (map randoms_dim ?ms)"
    using assms(3) rs by simp
  have 1: "mapFromGaussian c randoms = Inr (map Some (concat ?out))"
    using assms(3) by (simp add: mapFromGaussian_char [OF assms(1,2)])
  have 2: "concat ?bs = randoms"
    by (simp add: concat_blocks len)
  have 3: "map length ?bs = map randoms_dim ?ms"
    by (simp add: map_length_blocks len)
  have 4: "map length ?out = map variable_dim ?ms"
    by (rule map_length_component_results [OF assms(2) 3])
  have 5: "blocks (map variable_dim ?ms) (concat ?out) = ?out"
    by (rule blocks_concat [OF 4])
  have "length (concat ?out) = sum_list (map length ?out)"
    by (simp add: length_concat)
  then have 6: "int (length (concat ?out)) = sint (variableSize c)"
    by (simp only: 4 vs)
  from 1 2 3 5 6 show ?thesis by blast
qed

theorem mapFromGaussian_concatenates_component_results_witness:
  "dimensions_fit (process_models small_composed) \<and>
   list_all returns_variableSize (process_models small_composed) \<and>
   int (length [1, 2, 3, 4 :: real]) = sint (randomsSize small_composed) \<and>
   mapFromGaussian small_composed [1, 2, 3, 4] = Inr [Some 2, Some 4, Some 7] \<and>
   blocks (map randoms_dim (process_models small_composed)) [1, 2, 3, 4 :: real] = [[1, 2], [3, 4]]"
proof -
  have l: "int (length [1, 2, 3, 4 :: real]) = sint (randomsSize small_composed)"
    by (simp add: small_composed_sizes)
  have b: "blocks (map randoms_dim (process_models small_composed)) [1, 2, 3, 4 :: real] = [[1, 2], [3, 4]]"
    by (simp add: randoms_dim_def small_composed_def doubling_model_def adding_model_def)
  have "mapFromGaussian small_composed [1, 2, 3, 4] = Inr [Some 2, Some 4, Some 7]"
    using mapFromGaussian_concatenates_component_results
      [OF small_composed_fits small_composed_returns l]
    unfolding b by (simp add: small_composed_def doubling_model_def adding_model_def)
  with small_composed_fits small_composed_returns l b show ?thesis by blast
qed

text \<open>
  C9 as stated fails where the total of the random sizes wraps: \<^verbatim>\<open>randomsSize()\<close> of the
  four-component model is 0, the empty vector has that many rows, and the first block of
  \<open>2 ^ 30\<close> rows is out of its bounds.
\<close>

theorem mapFromGaussian_wrapped_randomsSize:
  "int (length ([] :: real list)) = sint (randomsSize wide_composed) \<and>
   mapFromGaussian wide_composed [] = Inl Eigen_assertion_failed"
  by (simp add: randomsSize_def total_count_randoms_def variableSize_def total_count_state_def
      mapFromGaussian_def wide_composed_def wide_model_def middleRows_def)

text \<open>
  C4 (as amended). The composed model compares no vector length with a declared
  dimension. For components as in C9: \<^verbatim>\<open>mapFromGaussian\<close> given at least \<^verbatim>\<open>randomsSize()\<close>
  rows returns a vector, the same as for the first \<^verbatim>\<open>randomsSize()\<close> rows alone (surplus rows
  are ignored without any report); \<^verbatim>\<open>conditionals\<close> given at least \<^verbatim>\<open>variableSize()\<close> state
  rows and \<^verbatim>\<open>controlSize()\<close> control rows makes its calls, the same as for the leading rows
  alone. Given fewer rows, a block expression of Eigen fails its bounds assertion.
\<close>

theorem composed_model_ignores_surplus_rows:
  assumes "dimensions_fit (process_models c)"
    and "list_all returns_variableSize (process_models c)"
  shows "mapFromGaussian c randoms =
           (if int (length randoms) < sint (randomsSize c) then Inl Eigen_assertion_failed
            else mapFromGaussian c (take (nat (sint (randomsSize c))) randoms)) \<and>
         (mapFromGaussian c randoms = Inl Eigen_assertion_failed \<longleftrightarrow>
            int (length randoms) < sint (randomsSize c)) \<and>
         conditionals c delta_time state control =
           (if int (length state) < sint (variableSize c) \<or> int (length control) < sint (controlSize c)
            then Inl Eigen_assertion_failed
            else conditionals c delta_time (take (nat (sint (variableSize c))) state)
                   (take (nat (sint (controlSize c))) control)) \<and>
         (conditionals c delta_time state control = Inl Eigen_assertion_failed \<longleftrightarrow>
            int (length state) < sint (variableSize c) \<or> int (length control) < sint (controlSize c))"
proof -
  let ?ms = "process_models c"
  from assms(1) have nn: "list_all sizes_nonnegative ?ms"
    and bv: "sum_variableSize ?ms < 2 ^ 31" and br: "sum_randomsSize ?ms < 2 ^ 31"
    and bk: "sum_controlSize ?ms < 2 ^ 31"
    by (simp_all add: dimensions_fit_def)
  note sums = sum_sint_nonnegative [OF nn]
  have wrapped: "sint (variableSize c) = signed_take_bit 31 (sum_variableSize ?ms)"
    "sint (randomsSize c) = signed_take_bit 31 (sum_randomsSize ?ms)"
    "sint (controlSize c) = signed_take_bit 31 (sum_controlSize ?ms)"
    by (simp_all add: variableSize_def randomsSize_def controlSize_def total_count_state_def
        total_count_randoms_def total_count_control_def sum_variableSize_def sum_randomsSize_def
        sum_controlSize_def sint_total)
  have vs: "sint (variableSize c) = int (sum_list (map variable_dim ?ms))"
    using sums bv by (simp add: wrapped signed_take_bit_int_eq_self)
  have rs: "sint (randomsSize c) = int (sum_list (map randoms_dim ?ms))"
    using sums br by (simp add: wrapped signed_take_bit_int_eq_self)
  have ks: "sint (controlSize c) = int (sum_list (map control_dim ?ms))"
    using sums bk by (simp add: wrapped signed_take_bit_int_eq_self)
  have 1: "mapFromGaussian c randoms =
           (if int (length randoms) < sint (randomsSize c) then Inl Eigen_assertion_failed
            else mapFromGaussian c (take (nat (sint (randomsSize c))) randoms))"
    by (simp add: mapFromGaussian_char [OF assms] rs blocks_take)
  have 2: "mapFromGaussian c randoms = Inl Eigen_assertion_failed \<longleftrightarrow>
            int (length randoms) < sint (randomsSize c)"
    by (simp add: mapFromGaussian_char [OF assms] rs)
  have 3: "conditionals c delta_time state control =
           (if int (length state) < sint (variableSize c) \<or> int (length control) < sint (controlSize c)
            then Inl Eigen_assertion_failed
            else conditionals c delta_time (take (nat (sint (variableSize c))) state)
                   (take (nat (sint (controlSize c))) control))"
    by (simp add: conditionals_char [OF assms(1)] vs ks blocks_take)
  have 4: "conditionals c delta_time state control = Inl Eigen_assertion_failed \<longleftrightarrow>
            int (length state) < sint (variableSize c) \<or> int (length control) < sint (controlSize c)"
    by (auto simp add: conditionals_char [OF assms(1)] vs ks)
  from 1 2 3 4 show ?thesis by blast
qed

theorem composed_model_ignores_surplus_rows_witness:
  "dimensions_fit (process_models small_composed) \<and>
   list_all returns_variableSize (process_models small_composed) \<and>
   mapFromGaussian small_composed [1, 2, 3, 4, 5] = mapFromGaussian small_composed [1, 2, 3, 4] \<and>
   mapFromGaussian small_composed [1, 2, 3, 4, 5] \<noteq> Inl Eigen_assertion_failed \<and>
   mapFromGaussian small_composed [1, 2, 3] = Inl Eigen_assertion_failed \<and>
   conditionals small_composed (1 :: real) [1, 2, 3, 4] [9, 8] =
     conditionals small_composed 1 [1, 2, 3] [9] \<and>
   conditionals small_composed (1 :: real) [1, 2, 3, 4] [9, 8] \<noteq> Inl Eigen_assertion_failed \<and>
   conditionals small_composed (1 :: real) [1, 2, 3, 4] [] = Inl Eigen_assertion_failed"
proof -
  note t = composed_model_ignores_surplus_rows [OF small_composed_fits small_composed_returns]
  note long = t [of "[1, 2, 3, 4, 5]" "1 :: real" "[1, 2, 3, 4]" "[9, 8]"]
  note short = t [of "[1, 2, 3]" "1 :: real" "[1, 2, 3, 4]" "[]"]
  have a: "mapFromGaussian small_composed [1, 2, 3, 4, 5] = mapFromGaussian small_composed [1, 2, 3, 4]"
    using long [THEN conjunct1] by (simp add: small_composed_sizes)
  have b: "mapFromGaussian small_composed [1, 2, 3, 4, 5] \<noteq> Inl Eigen_assertion_failed"
    using long [THEN conjunct2, THEN conjunct1] by (simp add: small_composed_sizes)
  have c: "mapFromGaussian small_composed [1, 2, 3] = Inl Eigen_assertion_failed"
    using short [THEN conjunct2, THEN conjunct1] by (simp add: small_composed_sizes)
  have d: "conditionals small_composed (1 :: real) [1, 2, 3, 4] [9, 8] =
           conditionals small_composed 1 [1, 2, 3] [9]"
    using long [THEN conjunct2, THEN conjunct2, THEN conjunct1]
    by (simp add: small_composed_sizes)
  have e: "conditionals small_composed (1 :: real) [1, 2, 3, 4] [9, 8] \<noteq> Inl Eigen_assertion_failed"
    using long [THEN conjunct2, THEN conjunct2, THEN conjunct2]
    by (simp add: small_composed_sizes)
  have f: "conditionals small_composed (1 :: real) [1, 2, 3, 4] [] = Inl Eigen_assertion_failed"
    using short [THEN conjunct2, THEN conjunct2, THEN conjunct2]
    by (simp add: small_composed_sizes)
  from small_composed_fits small_composed_returns a b c d e f show ?thesis by blast
qed

text \<open>
  C4 as stated fails: the model of two components has \<^verbatim>\<open>randomsSize()\<close> 4, and
  \<^verbatim>\<open>mapFromGaussian\<close> of five random numbers returns a vector, the fifth number unused.
\<close>

theorem mapFromGaussian_accepts_longer_vector:
  "int (length [1, 2, 3, 4, 5 :: real]) \<noteq> sint (randomsSize small_composed) \<and>
   mapFromGaussian small_composed [1, 2, 3, 4, 5] = Inr [Some 2, Some 4, Some 7]"
  by (simp add: randomsSize_def total_count_randoms_def variableSize_def total_count_state_def
      mapFromGaussian_def small_composed_def doubling_model_def adding_model_def
      middleRows_def assign_middleRows_def)

section \<open>Properties of the robust Gaussian filter\<close>

lemma snd_update: "snd (update lib f predicted_belief obsrv) = calibrated lib f predicted_belief"
  by (simp add: update_def calibrated_def body_distribution_def robust_feature_obsrv_model_def
      Let_def)

lemma fst_update:
  "fst (update lib f predicted_belief obsrv) =
     GaussianFilter_update lib (gaussian_filter (calibrated lib f predicted_belief))
       predicted_belief
       (feature_obsrv lib (robust_feature_obsrv_model (calibrated lib f predicted_belief)) obsrv)"
  by (simp add: update_def calibrated_def body_distribution_def robust_feature_obsrv_model_def
      Let_def)

text \<open>
  C1. In every call of \<^verbatim>\<open>update\<close>, whatever the wrapped engine, its quadrature and the
  feature model are: (1) the body distribution is the quadrature's moment integration of
  the raw observation function under the predicted belief and the noise distribution;
  (2) it is passed to the feature model's \<^verbatim>\<open>parameters\<close>, and the feature model so calibrated
  replaces the one in the engine, which is the only change the call makes to the filter
  object; (3) the observation is transformed by the calibrated feature model; (4) the
  posterior belief is the result of the engine's update, run in the calibrated state on
  the feature observation.
\<close>

theorem update_calibrates_transforms_delegates:
  "update lib f predicted_belief obsrv =
     (GaussianFilter_update lib
        ((gaussian_filter f)
           \<lparr>gf_obsrv_model :=
              parameters lib (robust_feature_obsrv_model f)
                (integrate_moments lib (gf_quadrature (gaussian_filter f))
                   (observation lib (obsrv_model lib f)) predicted_belief
                   (Gaussian_ctor lib (noise_dimension lib (obsrv_model lib f)))
                   (Gaussian_ctor lib (obsrv_dimension lib (obsrv_model lib f))))
                (mean predicted_belief)\<rparr>)
        predicted_belief
        (feature_obsrv lib
           (parameters lib (robust_feature_obsrv_model f)
              (integrate_moments lib (gf_quadrature (gaussian_filter f))
                 (observation lib (obsrv_model lib f)) predicted_belief
                 (Gaussian_ctor lib (noise_dimension lib (obsrv_model lib f)))
                 (Gaussian_ctor lib (obsrv_dimension lib (obsrv_model lib f))))
              (mean predicted_belief))
           obsrv),
      f\<lparr>gaussian_filter := (gaussian_filter f)
         \<lparr>gf_obsrv_model :=
            parameters lib (robust_feature_obsrv_model f)
              (integrate_moments lib (gf_quadrature (gaussian_filter f))
                 (observation lib (obsrv_model lib f)) predicted_belief
                 (Gaussian_ctor lib (noise_dimension lib (obsrv_model lib f)))
                 (Gaussian_ctor lib (obsrv_dimension lib (obsrv_model lib f))))
              (mean predicted_belief)\<rparr>\<rparr>)"
  by (simp add: update_def robust_feature_obsrv_model_def Let_def)

text \<open>
  C3. \<^verbatim>\<open>predict\<close> of the wrapper returns the predicted belief of the wrapped engine's
  \<^verbatim>\<open>predict\<close> on the same arguments, and the wrapped engine is the Gaussian filter
  constructed with the feature model in the place of the observation model.
\<close>

theorem predict_is_engine_predict:
  "predict lib f prior_belief input =
     GaussianFilter_predict lib (gaussian_filter f) prior_belief input \<and>
   predict lib (RobustGaussianFilter_ctor lib pm om args) prior_belief input =
     GaussianFilter_predict lib
       (GaussianFilter_ctor pm (FeatureObsrvModel_ctor lib om) args) prior_belief input"
  by (simp add: predict_def RobustGaussianFilter_ctor_def)

text \<open>
  C5. spec-modelled (the calibration hook and the engine's \<^verbatim>\<open>predict\<close> are as the
  specification describes them). The results of \<^verbatim>\<open>predict\<close> and \<^verbatim>\<open>update\<close> are determined by
  their typed inputs and the model parameters: two filter objects with the same process
  model, raw observation model and quadrature give the same predicted belief, the same
  posterior belief and the same filter object after \<^verbatim>\<open>update\<close>, whatever calibration earlier
  calls have left in either of them.
\<close>

theorem predict_update_depend_on_model_parameters_only:
  assumes "as_specified lib" and "same_model_parameters lib f f'"
  shows "predict lib f prior_belief input = predict lib f' prior_belief input \<and>
         update lib f predicted_belief obsrv = update lib f' predicted_belief obsrv"
proof -
  from assms(1) have spec:
    "(\<forall>fom. embedded_obsrv_model lib fom = base_obsrv_model fom) \<and>
     (\<forall>fom body_distr x.
        parameters lib fom body_distr x = fom\<lparr>body_gaussian := body_distr, mean_state := x\<rparr>) \<and>
     (\<forall>gf gf' prior_belief input.
        gf_process_model gf = gf_process_model gf' \<and> gf_quadrature gf = gf_quadrature gf' \<longrightarrow>
        GaussianFilter_predict lib gf prior_belief input =
          GaussianFilter_predict lib gf' prior_belief input)"
    unfolding as_specified_def .
  note emb = spec [THEN conjunct1, rule_format]
  note par = spec [THEN conjunct2, THEN conjunct1, rule_format]
  note pre = spec [THEN conjunct2, THEN conjunct2, rule_format]
  obtain gf where f: "f = \<lparr>gaussian_filter = gf\<rparr>" by (cases f) simp
  obtain gf' where f': "f' = \<lparr>gaussian_filter = gf'\<rparr>" by (cases f') simp
  obtain pm fom q where gf: "gf = \<lparr>gf_process_model = pm, gf_obsrv_model = fom, gf_quadrature = q\<rparr>"
    by (cases gf) simp
  obtain pm' fom' q' where gf': "gf' = \<lparr>gf_process_model = pm', gf_obsrv_model = fom', gf_quadrature = q'\<rparr>"
    by (cases gf') simp
  obtain om b x where fom: "fom = \<lparr>base_obsrv_model = om, body_gaussian = b, mean_state = x\<rparr>"
    by (cases fom) simp
  obtain om' b' x' where fom': "fom' = \<lparr>base_obsrv_model = om', body_gaussian = b', mean_state = x'\<rparr>"
    by (cases fom') simp
  from assms(2) have eq: "pm = pm'" "om = om'" "q = q'"
    by (simp_all add: same_model_parameters_def process_model_def obsrv_model_def emb
        f f' gf gf' fom fom')
  have p: "predict lib f prior_belief input = predict lib f' prior_belief input"
    unfolding predict_def by (rule pre) (simp_all add: f f' gf gf' eq)
  have u: "update lib f predicted_belief obsrv = update lib f' predicted_belief obsrv"
    by (simp add: update_def obsrv_model_def emb par Let_def f f' gf gf' fom fom' eq)
  from p u show ?thesis by simp
qed

lemma scalar_library_as_specified: "as_specified scalar_library"
  by (simp add: as_specified_def scalar_library_def)

lemma fresh_used_same_model_parameters:
  "same_model_parameters scalar_library fresh_filter used_filter"
  by (simp add: same_model_parameters_def process_model_def obsrv_model_def used_filter_def
      snd_update calibrated_def robust_feature_obsrv_model_def scalar_library_def)

theorem predict_update_depend_on_model_parameters_only_witness:
  "as_specified scalar_library \<and>
   same_model_parameters scalar_library fresh_filter used_filter \<and>
   robust_feature_obsrv_model fresh_filter \<noteq> robust_feature_obsrv_model used_filter \<and>
   predict scalar_library fresh_filter \<lparr>mean = [5], covariance = [[1]]\<rparr> [1] =
     predict scalar_library used_filter \<lparr>mean = [5], covariance = [[1]]\<rparr> [1] \<and>
   update scalar_library fresh_filter \<lparr>mean = [11], covariance = [[1]]\<rparr> [7] =
     update scalar_library used_filter \<lparr>mean = [11], covariance = [[1]]\<rparr> [7] \<and>
   fst (update scalar_library fresh_filter \<lparr>mean = [11], covariance = [[1]]\<rparr> [7]) =
     \<lparr>mean = [-15], covariance = [[1]]\<rparr>"
proof -
  have d: "robust_feature_obsrv_model fresh_filter \<noteq> robust_feature_obsrv_model used_filter"
    by (simp add: used_filter_def snd_update calibrated_def robust_feature_obsrv_model_def
        body_distribution_def obsrv_model_def fresh_filter_def RobustGaussianFilter_ctor_def
        GaussianFilter_ctor_def scalar_library_def)
  have v: "fst (update scalar_library fresh_filter \<lparr>mean = [11], covariance = [[1]]\<rparr> [7]) =
     \<lparr>mean = [-15], covariance = [[1]]\<rparr>"
    by (simp add: update_def Let_def fresh_filter_def RobustGaussianFilter_ctor_def
        GaussianFilter_ctor_def scalar_library_def obsrv_model_def)
  note t = predict_update_depend_on_model_parameters_only
    [OF scalar_library_as_specified fresh_used_same_model_parameters]
  from t [of "\<lparr>mean = [5], covariance = [[1]]\<rparr>" "[1]" "\<lparr>mean = [11], covariance = [[1]]\<rparr>" "[7]"]
    scalar_library_as_specified fresh_used_same_model_parameters d v
  show ?thesis by simp
qed

text \<open>
  C7. \<^verbatim>\<open>robust_feature_obsrv_model()\<close> returns the observation model that the wrapped engine
  holds, the feature model; \<^verbatim>\<open>obsrv_model()\<close> returns the model embedded in that feature model
  (the types differ: it is not the feature model). For a filter constructed from a raw
  observation model, \<^verbatim>\<open>robust_feature_obsrv_model()\<close> is the feature model constructed from it
  and \<^verbatim>\<open>obsrv_model()\<close> is the model embedded there; in \<^verbatim>\<open>update\<close> the engine runs on the
  engine object whose observation model \<^verbatim>\<open>robust_feature_obsrv_model()\<close> then returns.
\<close>

theorem accessors_return_feature_and_raw_model:
  "robust_feature_obsrv_model f = gf_obsrv_model (gaussian_filter f) \<and>
   obsrv_model lib f = embedded_obsrv_model lib (robust_feature_obsrv_model f) \<and>
   robust_feature_obsrv_model (RobustGaussianFilter_ctor lib pm om args) =
     FeatureObsrvModel_ctor lib om \<and>
   obsrv_model lib (RobustGaussianFilter_ctor lib pm om args) =
     embedded_obsrv_model lib (FeatureObsrvModel_ctor lib om) \<and>
   fst (update lib f predicted_belief obsrv) =
     GaussianFilter_update lib (gaussian_filter (snd (update lib f predicted_belief obsrv)))
       predicted_belief
       (feature_obsrv lib
          (robust_feature_obsrv_model (snd (update lib f predicted_belief obsrv))) obsrv)"
  by (simp add: robust_feature_obsrv_model_def obsrv_model_def RobustGaussianFilter_ctor_def
      GaussianFilter_ctor_def snd_update fst_update)

text \<open>
  C10. In every call of \<^verbatim>\<open>update\<close> the reference state that the calibration hook
  \<^verbatim>\<open>parameters\<close> receives is the mean of the predicted belief passed to \<^verbatim>\<open>update\<close>, and the
  calibration comes before the transformation: the feature model that \<^verbatim>\<open>feature_obsrv\<close> is
  called on is the one \<^verbatim>\<open>parameters\<close> has returned.
\<close>

theorem update_calibrates_with_predicted_mean:
  "robust_feature_obsrv_model (snd (update lib f predicted_belief obsrv)) =
     parameters lib (robust_feature_obsrv_model f)
       (body_distribution lib f predicted_belief) (mean predicted_belief) \<and>
   fst (update lib f predicted_belief obsrv) =
     GaussianFilter_update lib (gaussian_filter (snd (update lib f predicted_belief obsrv)))
       predicted_belief
       (feature_obsrv lib
          (parameters lib (robust_feature_obsrv_model f)
             (body_distribution lib f predicted_belief) (mean predicted_belief))
          obsrv)"
  by (simp add: update_def body_distribution_def robust_feature_obsrv_model_def Let_def)

section \<open>Properties of the sigma-point quadrature\<close>

lemma sum_list_upt_sum: "(\<Sum>i\<leftarrow>[0..<n]. F i) = (\<Sum>i = 0..<n. F i)"
  by (simp add: interv_sum_list_conv_sum_set_nat)

lemma twice_half_reciprocal: "2 * (1 / (2 * x)) = 1 / (x::real)"
  by simp

lemma symmetric_values_moments:
  fixes a :: "nat \<Rightarrow> real" and c :: "nat \<Rightarrow> nat \<Rightarrow> real"
  assumes s: "real n + spread \<noteq> 0" and n: "length (mean g) = n"
    and S: "S = matrix_sqrt (map (map ((*) (real n + spread))) (covariance g))"
    and central: "\<And>j. j < m \<Longrightarrow> f (mean g) ! j = a j"
    and plus: "\<And>i j. i < n \<Longrightarrow> j < m \<Longrightarrow>
                 f (map (\<lambda>j. mean g ! j + S ! j ! i) [0..<n]) ! j = a j + c j i"
    and minus: "\<And>i j. i < n \<Longrightarrow> j < m \<Longrightarrow>
                 f (map (\<lambda>j. mean g ! j - S ! j ! i) [0..<n]) ! j = a j - c j i"
  shows "sigma_point_integrate_moments spread central_cov matrix_sqrt m f g =
           \<lparr>mean = map a [0..<m],
            covariance = map (\<lambda>j. map (\<lambda>k. (\<Sum>i = 0..<n. c j i * c k i) / (real n + spread)) [0..<m])
                           [0..<m]\<rparr>"
proof -
  define ps where "ps = sigma_point_set spread central_cov matrix_sqrt g"
  define w0 where "w0 = spread / (real n + spread)"
  define w where "w = 1 / (2 * (real n + spread))"
  have split: "(\<Sum>p\<leftarrow>ps. F p) =
      F \<lparr>point = mean g, weight_mean = w0, weight_cov = w0 + central_cov\<rparr>
      + (\<Sum>i = 0..<n. F \<lparr>point = map (\<lambda>j. mean g ! j + S ! j ! i) [0..<n], weight_mean = w, weight_cov = w\<rparr>)
      + (\<Sum>i = 0..<n. F \<lparr>point = map (\<lambda>j. mean g ! j - S ! j ! i) [0..<n], weight_mean = w, weight_cov = w\<rparr>)"
    for F :: "sigma_point \<Rightarrow> real"
    by (simp add: ps_def sigma_point_set_def Let_def n S w0_def w_def comp_def
        sum_list_upt_sum [symmetric])
  have tw: "2 * w = 1 / (real n + spread)"
    unfolding w_def by (rule twice_half_reciprocal)
  have "w0 + real n * (2 * w) = spread / (real n + spread) + real n / (real n + spread)"
    by (simp add: tw w0_def)
  also have "\<dots> = (spread + real n) / (real n + spread)"
    by (simp add: add_divide_distrib)
  also have "\<dots> = 1"
    using s by (simp add: add.commute)
  finally have weights: "w0 + real n * (2 * w) = 1" .
  have mean_j: "(\<Sum>p\<leftarrow>ps. weight_mean p * (f (point p) ! j)) = a j" if "j < m" for j
  proof -
    have "(\<Sum>p\<leftarrow>ps. weight_mean p * (f (point p) ! j)) =
          w0 * a j + (\<Sum>i = 0..<n. w * (a j + c j i)) + (\<Sum>i = 0..<n. w * (a j - c j i))"
      using that by (simp add: split central plus minus)
    also have "\<dots> = w0 * a j + (\<Sum>i = 0..<n. 2 * w * a j)"
      by (simp add: sum.distrib [symmetric] algebra_simps)
    also have "\<dots> = (w0 + real n * (2 * w)) * a j"
      by (simp add: algebra_simps)
    finally show ?thesis by (simp add: weights)
  qed
  have cov_jk: "(\<Sum>p\<leftarrow>ps. weight_cov p * (f (point p) ! j - a j) * (f (point p) ! k - a k)) =
                (\<Sum>i = 0..<n. c j i * c k i) / (real n + spread)" if "j < m" "k < m" for j k
  proof -
    have "(\<Sum>p\<leftarrow>ps. weight_cov p * (f (point p) ! j - a j) * (f (point p) ! k - a k)) =
          (\<Sum>i = 0..<n. w * c j i * c k i) + (\<Sum>i = 0..<n. w * c j i * c k i)"
      using that by (simp add: split central plus minus)
    also have "\<dots> = (2 * w) * (\<Sum>i = 0..<n. c j i * c k i)"
      by (simp add: sum_distrib_left algebra_simps)
    also have "\<dots> = (\<Sum>i = 0..<n. c j i * c k i) / (real n + spread)"
      by (simp add: tw)
    finally show ?thesis .
  qed
  have mu: "weighted_mean m f ps = map a [0..<m]"
    by (simp add: weighted_mean_def mean_j)
  have cov: "weighted_covariance m f ps (map a [0..<m]) =
     map (\<lambda>j. map (\<lambda>k. (\<Sum>i = 0..<n. c j i * c k i) / (real n + spread)) [0..<m]) [0..<m]"
    by (simp add: weighted_covariance_def cov_jk)
  show ?thesis
    by (simp add: sigma_point_integrate_moments_def Let_def ps_def [symmetric] mu cov)
qed


lemma matrix_entries:
  assumes "length P = n" "list_all (\<lambda>row. length row = n) P"
  shows "map (\<lambda>j. map (\<lambda>k. P ! j ! k) [0..<n]) [0..<n] = (P :: real list list)"
proof (rule nth_equalityI)
  show "length (map (\<lambda>j. map (\<lambda>k. P ! j ! k) [0..<n]) [0..<n]) = length P"
    using assms(1) by simp
next
  fix j assume "j < length (map (\<lambda>j. map (\<lambda>k. P ! j ! k) [0..<n]) [0..<n])"
  then have j: "j < n" by simp
  then have "length (P ! j) = n"
    using assms by (simp add: list_all_length)
  then have "map (\<lambda>k. P ! j ! k) [0..<n] = P ! j"
    using map_nth [of "P ! j"] by simp
  then show "map (\<lambda>j. map (\<lambda>k. P ! j ! k) [0..<n]) [0..<n] ! j = P ! j"
    using j by simp
qed

lemma scaled_entry:
  assumes "length P = n" "list_all (\<lambda>row. length row = n) P" "j < n" "k < n"
  shows "map (map ((*) s)) P ! j ! k = s * (P ! j ! k :: real)"
  using assms by (simp add: list_all_length)

lemma identity_moments:
  assumes g: "gaussian_dimension n g" and s: "real n + spread \<noteq> 0"
    and root: "is_matrix_sqrt n (matrix_sqrt (map (map ((*) (real n + spread))) (covariance g)))
                 (map (map ((*) (real n + spread))) (covariance g))"
  shows "sigma_point_integrate_moments spread central_cov matrix_sqrt n (\<lambda>x. x) g = g"
proof -
  define S where "S = matrix_sqrt (map (map ((*) (real n + spread))) (covariance g))"
  from g have len: "length (mean g) = n" and rows: "length (covariance g) = n"
    and cols: "list_all (\<lambda>row. length row = n) (covariance g)"
    by (simp_all add: gaussian_dimension_def)
  have "sigma_point_integrate_moments spread central_cov matrix_sqrt n (\<lambda>x. x) g =
          \<lparr>mean = map (\<lambda>j. mean g ! j) [0..<n],
           covariance = map (\<lambda>j. map (\<lambda>k. (\<Sum>i = 0..<n. S ! j ! i * S ! k ! i) / (real n + spread)) [0..<n])
                           [0..<n]\<rparr>"
    by (rule symmetric_values_moments
          [where f = "\<lambda>x. x" and a = "\<lambda>j. mean g ! j" and c = "\<lambda>j i. S ! j ! i"
             and S = S and matrix_sqrt = matrix_sqrt and g = g and n = n and spread = spread,
            OF s len S_def])
      simp_all
  also have "map (\<lambda>j. mean g ! j) [0..<n] = mean g"
    using map_nth [of "mean g"] by (simp add: len)
  also have "map (\<lambda>j. map (\<lambda>k. (\<Sum>i = 0..<n. S ! j ! i * S ! k ! i) / (real n + spread)) [0..<n]) [0..<n]
             = map (\<lambda>j. map (\<lambda>k. covariance g ! j ! k) [0..<n]) [0..<n]"
  proof -
    have "(\<Sum>i = 0..<n. S ! j ! i * S ! k ! i) / (real n + spread) = covariance g ! j ! k"
      if "j < n" "k < n" for j k
    proof -
      have "(\<Sum>i = 0..<n. S ! j ! i * S ! k ! i) =
            map (map ((*) (real n + spread))) (covariance g) ! j ! k"
        using root that by (simp add: is_matrix_sqrt_def S_def sum_list_upt_sum)
      also have "\<dots> = (real n + spread) * (covariance g ! j ! k)"
        by (rule scaled_entry [OF rows cols that])
      finally show ?thesis using s by simp
    qed
    then show ?thesis by simp
  qed
  also have "\<dots> = covariance g"
    by (rule matrix_entries [OF rows cols])
  finally show ?thesis by simp
qed

lemma affine_moments:
  assumes g: "gaussian_dimension n g" and s: "real n + spread \<noteq> 0"
    and root: "is_matrix_sqrt n (matrix_sqrt (map (map ((*) (real n + spread))) (covariance g)))
                 (map (map ((*) (real n + spread))) (covariance g))"
  shows "sigma_point_integrate_moments spread central_cov matrix_sqrt (length b) (affine A b) g =
           \<lparr>mean = affine A b (mean g), covariance = congruence (length b) A (covariance g)\<rparr>"
proof -
  define S where "S = matrix_sqrt (map (map ((*) (real n + spread))) (covariance g))"
  define a where "a j = (\<Sum>l = 0..<n. A ! j ! l * mean g ! l) + b ! j" for j
  define c where "c j i = (\<Sum>l = 0..<n. A ! j ! l * S ! l ! i)" for j i
  from g have len: "length (mean g) = n" and rows: "length (covariance g) = n"
    and cols: "list_all (\<lambda>row. length row = n) (covariance g)"
    by (simp_all add: gaussian_dimension_def)
  have central: "affine A b (mean g) ! j = a j" if "j < length b" for j
    using that by (simp add: affine_def a_def len sum_list_upt_sum)
  have plus: "affine A b (map (\<lambda>j. mean g ! j + S ! j ! i) [0..<n]) ! j = a j + c j i"
    if "i < n" "j < length b" for i j
  proof -
    have "affine A b (map (\<lambda>j. mean g ! j + S ! j ! i) [0..<n]) ! j =
          (\<Sum>l = 0..<n. A ! j ! l * (mean g ! l + S ! l ! i)) + b ! j"
      using that by (simp add: affine_def sum_list_upt_sum)
    also have "\<dots> = a j + c j i"
      by (simp add: a_def c_def distrib_left sum.distrib)
    finally show ?thesis .
  qed
  have minus: "affine A b (map (\<lambda>j. mean g ! j - S ! j ! i) [0..<n]) ! j = a j - c j i"
    if "i < n" "j < length b" for i j
  proof -
    have "affine A b (map (\<lambda>j. mean g ! j - S ! j ! i) [0..<n]) ! j =
          (\<Sum>l = 0..<n. A ! j ! l * (mean g ! l - S ! l ! i)) + b ! j"
      using that by (simp add: affine_def sum_list_upt_sum)
    also have "\<dots> = a j - c j i"
      by (simp add: a_def c_def right_diff_distrib sum_subtractf)
    finally show ?thesis .
  qed
  have "sigma_point_integrate_moments spread central_cov matrix_sqrt (length b) (affine A b) g =
          \<lparr>mean = map a [0..<length b],
           covariance = map (\<lambda>j. map (\<lambda>k. (\<Sum>i = 0..<n. c j i * c k i) / (real n + spread)) [0..<length b])
                           [0..<length b]\<rparr>"
    by (rule symmetric_values_moments
          [where S = S and matrix_sqrt = matrix_sqrt and g = g and n = n and spread = spread
             and f = "affine A b" and a = a and c = c and m = "length b",
            OF s len S_def central plus minus])
  also have "map a [0..<length b] = affine A b (mean g)"
    by (simp add: affine_def a_def len sum_list_upt_sum)
  also have "map (\<lambda>j. map (\<lambda>k. (\<Sum>i = 0..<n. c j i * c k i) / (real n + spread)) [0..<length b]) [0..<length b]
             = congruence (length b) A (covariance g)"
  proof -
    have "(\<Sum>i = 0..<n. c j i * c k i) / (real n + spread) =
          (\<Sum>l = 0..<n. \<Sum>l' = 0..<n. A ! j ! l * covariance g ! l ! l' * A ! k ! l')" for j k
    proof -
      have "(\<Sum>i = 0..<n. c j i * c k i) =
            (\<Sum>i = 0..<n. \<Sum>l = 0..<n. \<Sum>l' = 0..<n. (A ! j ! l * A ! k ! l') * (S ! l ! i * S ! l' ! i))"
        by (simp add: c_def sum_product algebra_simps)
      also have "\<dots> = (\<Sum>l = 0..<n. \<Sum>i = 0..<n. \<Sum>l' = 0..<n. (A ! j ! l * A ! k ! l') * (S ! l ! i * S ! l' ! i))"
        by (rule sum.swap)
      also have "\<dots> = (\<Sum>l = 0..<n. \<Sum>l' = 0..<n. \<Sum>i = 0..<n. (A ! j ! l * A ! k ! l') * (S ! l ! i * S ! l' ! i))"
        by (rule sum.cong [OF refl]) (rule sum.swap)
      also have "\<dots> = (\<Sum>l = 0..<n. \<Sum>l' = 0..<n. (A ! j ! l * A ! k ! l') * ((real n + spread) * covariance g ! l ! l'))"
      proof (intro sum.cong refl)
        fix l l' assume "l \<in> {0..<n}" "l' \<in> {0..<n}"
        then have l: "l < n" "l' < n" by simp_all
        have "(\<Sum>i = 0..<n. S ! l ! i * S ! l' ! i) =
              map (map ((*) (real n + spread))) (covariance g) ! l ! l'"
          using root l by (simp add: is_matrix_sqrt_def S_def sum_list_upt_sum)
        also have "\<dots> = (real n + spread) * (covariance g ! l ! l')"
          by (rule scaled_entry [OF rows cols l])
        finally show "(\<Sum>i = 0..<n. (A ! j ! l * A ! k ! l') * (S ! l ! i * S ! l' ! i)) =
                      (A ! j ! l * A ! k ! l') * ((real n + spread) * covariance g ! l ! l')"
          by (simp add: sum_distrib_left [symmetric])
      qed
      also have "\<dots> = (real n + spread) * (\<Sum>l = 0..<n. \<Sum>l' = 0..<n. A ! j ! l * covariance g ! l ! l' * A ! k ! l')"
        by (simp add: sum_distrib_left algebra_simps)
      finally show ?thesis using s by simp
    qed
    then show ?thesis
      by (simp add: congruence_def rows sum_list_upt_sum)
  qed
  finally show ?thesis by simp
qed


text \<open>
  C6. spec-modelled (the quadrature is modelled from the specification, over the real
  numbers). For a Gaussian of any dimension, any spread constant with a positive scaling
  \<open>n + spread\<close>, and a square-root primitive that answers with a square root of the scaled
  covariance (as it does for every positive-definite covariance): the moment integration
  of the identity function returns the input mean and covariance; the moment integration
  of an affine function \<open>x \<mapsto> A x + b\<close> returns the mean \<open>A \<mu> + b\<close> and the covariance
  \<open>A P A\<^sup>T\<close>.
\<close>

theorem sigma_point_quadrature_exact_on_affine:
  assumes "gaussian_dimension n g" and "0 < real n + spread"
    and "is_matrix_sqrt n (matrix_sqrt (map (map ((*) (real n + spread))) (covariance g)))
           (map (map ((*) (real n + spread))) (covariance g))"
  shows "sigma_point_integrate_moments spread central_cov matrix_sqrt n (\<lambda>x. x) g = g \<and>
         sigma_point_integrate_moments spread central_cov matrix_sqrt (length b) (affine A b) g =
           \<lparr>mean = affine A b (mean g), covariance = congruence (length b) A (covariance g)\<rparr>"
proof -
  from assms(2) have s: "real n + spread \<noteq> 0" by simp
  have "sigma_point_integrate_moments spread central_cov matrix_sqrt n (\<lambda>x. x) g = g"
    using assms(1) s assms(3) by (rule identity_moments)
  moreover have "sigma_point_integrate_moments spread central_cov matrix_sqrt (length b) (affine A b) g =
           \<lparr>mean = affine A b (mean g), covariance = congruence (length b) A (covariance g)\<rparr>"
    using assms(1) s assms(3) by (rule affine_moments)
  ultimately show ?thesis by simp
qed

lemma example_gaussian_dimension: "gaussian_dimension 2 example_gaussian"
  by (simp add: gaussian_dimension_def example_gaussian_def)

lemma example_sqrt_is_root:
  "is_matrix_sqrt 2 (example_sqrt (map (map ((*) (real 2 + 2))) (covariance example_gaussian)))
     (map (map ((*) (real 2 + 2))) (covariance example_gaussian))"
  by (auto simp: is_matrix_sqrt_def example_sqrt_def example_gaussian_def less_Suc_eq
      numeral_2_eq_2)

theorem sigma_point_quadrature_exact_on_affine_witness:
  "gaussian_dimension 2 example_gaussian \<and> 0 < real 2 + (2 :: real) \<and>
   is_matrix_sqrt 2 (example_sqrt (map (map ((*) (real 2 + 2))) (covariance example_gaussian)))
     (map (map ((*) (real 2 + 2))) (covariance example_gaussian)) \<and>
   sigma_point_integrate_moments 2 (3 / 2) example_sqrt 2 (\<lambda>x. x) example_gaussian =
     \<lparr>mean = [1, -2], covariance = [[4, 2], [2, 10]]\<rparr> \<and>
   sigma_point_integrate_moments 2 (3 / 2) example_sqrt 1 (affine [[1, 1]] [3]) example_gaussian =
     \<lparr>mean = [2], covariance = [[18]]\<rparr>"
proof -
  have p: "0 < real 2 + (2 :: real)" by simp
  note t = sigma_point_quadrature_exact_on_affine
    [where n = 2 and g = example_gaussian and spread = 2 and matrix_sqrt = example_sqrt
       and central_cov = "3 / 2" and b = "[3]" and A = "[[1, 1]]",
      OF example_gaussian_dimension p example_sqrt_is_root]
  have a: "affine [[1, 1]] [3] (mean example_gaussian) = [2]"
    by (simp add: affine_def example_gaussian_def numeral_2_eq_2)
  have c: "congruence (Suc 0) [[1, 1]] (covariance example_gaussian) = [[18]]"
    by (simp add: congruence_def example_gaussian_def numeral_2_eq_2)
  from t have "sigma_point_integrate_moments 2 (3 / 2) example_sqrt 2 (\<lambda>x. x) example_gaussian =
     \<lparr>mean = [1, -2], covariance = [[4, 2], [2, 10]]\<rparr>"
    by (simp add: example_gaussian_def)
  moreover from t have "sigma_point_integrate_moments 2 (3 / 2) example_sqrt 1 (affine [[1, 1]] [3]) example_gaussian =
     \<lparr>mean = [2], covariance = [[18]]\<rparr>"
    by (simp add: a c)
  ultimately show ?thesis
    using example_gaussian_dimension p example_sqrt_is_root by blast
qed

end
